theory Spec2Isabelle
  imports Complex_Main "HOL-Library.Multiset" "HOL-Library.Code_Target_Numeral"
begin

section \<open>scripts/preprocess.py: Label Studio tasks to spaCy corpora\<close>

text \<open>
  The script converts the completed tasks of a Label Studio export into spaCy \<open>Doc\<close>
  objects (\<open>create_spacy_docs\<close>) and splits them into a train, a dev and a test
  partition (\<open>train_test_dev_split\<close>); \<open>main\<close> chains both behind one
  \<open>try\<close>/\<open>except\<close>. The functions are embedded below in the order of the source.
  Exceptions are values of \<open>py_exception\<close>, a call that may raise returns
  \<open>py_exception + 'a\<close> with \<open>Inl\<close> for the raise.
  What a call changes outside its own locals is passed in and returned: the state of
  the generator of \<open>random\<close>, the console and the file system, and the heap of the
  objects the caller shares with the callee.
\<close>

subsection \<open>Exceptions\<close>

datatype py_exception =
    ZeroDivisionError
  | IndexError
  | KeyError string
  | ValueError string
  | FileNotFoundError string
  | OtherError string

subsection \<open>Data\<close>

text \<open>
  A Label Studio task, as far as the script reads it:
  \<open>task["completions"]\<close>, \<open>task["data"]["reddit"]\<close>,
  \<open>completion["result"]\<close>, \<open>result["value"]\<close> with its keys \<open>start\<close>, \<open>end\<close>
  and \<open>labels\<close>. The script tests the key \<open>was_cancelled\<close> for presence only
  (\<open>"was_cancelled" in completion\<close>), so the field is an option: \<open>None\<close> is a
  completion without the key.
\<close>

record result_value =
  v_start :: int
  v_end :: int
  v_labels :: "string list"

record completion =
  was_cancelled :: "bool option"
  result :: "result_value list"

record task =
  completions :: "completion list"
  reddit :: string

text \<open>An annotation as the script stores it: \<open>(start, end, label)\<close>, character offsets.\<close>

type_synonym annotation = "int \<times> int \<times> string"

text \<open>
  A spaCy \<open>Doc\<close>, as far as the script reads it: the text it was made from and
  \<open>doc.ents\<close>, a sequence of labelled token spans (first token, end token, label).
\<close>

type_synonym span = "nat \<times> nat \<times> string"

record doc =
  doc_text :: string
  doc_ents :: "span list"

text \<open>
  Python passes objects by reference: the parameter \<open>docs\<close> of
  \<open>train_test_dev_split\<close> is the caller's list object, and its elements are references to
  \<open>Doc\<close> objects. The heap holds both kinds of object, each kind under addresses of
  its own: \<open>doc_at h a\<close> is the \<open>Doc\<close> at address \<open>a\<close>, and \<open>list_at h r\<close> is the list
  object at address \<open>r\<close>, a list of addresses of \<open>Doc\<close> objects.
\<close>

type_synonym addr = nat

record heap =
  doc_at :: "addr \<Rightarrow> doc"
  list_at :: "addr \<Rightarrow> addr list"

subsection \<open>The libraries the script calls\<close>

text \<open>
  spaCy is not part of the repository; the four places where \<open>create_spacy_docs\<close>
  enters it are parameters, and each of them may raise:
  \<open>nlp(raw_text)\<close>, \<open>offsets_to_biluo_tags(doc, annotated_entities)\<close>,
  \<open>biluo_tags_to_spans(doc, tags)\<close> and the assignment \<open>doc.ents = entities\<close>
  (\<open>set_ents\<close>; the document it returns carries what \<open>doc.ents\<close> reads afterwards).
\<close>

record spacy_lib =
  nlp :: "string \<Rightarrow> py_exception + doc"
  offsets_to_biluo_tags :: "doc \<Rightarrow> annotation list \<Rightarrow> py_exception + string list"
  biluo_tags_to_spans :: "doc \<Rightarrow> string list \<Rightarrow> py_exception + span list"
  set_ents :: "doc \<Rightarrow> span list \<Rightarrow> py_exception + doc"

text \<open>
  The module \<open>random\<close> keeps one hidden generator, of state \<open>'g\<close>.
  \<open>random.seed(a)\<close> replaces that state by one computed from \<open>a\<close> alone;
  \<open>random.shuffle(x)\<close> reorders the list \<open>x\<close> in place and advances the generator.
  The parameter \<open>shuffle\<close> gives the new content of the list object, a list of
  references, from its old content; the caller of \<open>shuffle\<close> writes it to the heap.
\<close>

record 'g random_lib =
  seed :: "int \<Rightarrow> 'g"
  shuffle :: "'g \<Rightarrow> addr list \<Rightarrow> addr list \<times> 'g"

text \<open>
  The console and the file system, of state \<open>'w\<close>, as the last lines of
  \<open>train_test_dev_split\<close> use them: \<open>print(tabulate(summary, ...))\<close>,
  \<open>out_dir.mkdir(exist_ok=True)\<close> and \<open>DocBin(docs=...).to_disk(out_dir / name)\<close>.
  Each call returns the exception it raises, or \<open>None\<close> when it returns, and the state
  it leaves behind in either case. A row of the summary is the name of a partition, its
  number of entities, its number of documents and its ratio times 100.
\<close>

record ('f, 'w) io_lib =
  print_table :: "(string \<times> int \<times> nat \<times> 'f) list \<Rightarrow> 'w \<Rightarrow> py_exception option \<times> 'w"
  mkdir :: "string \<Rightarrow> 'w \<Rightarrow> py_exception option \<times> 'w"
  to_disk :: "doc list \<Rightarrow> string \<Rightarrow> string \<Rightarrow> 'w \<Rightarrow> py_exception option \<times> 'w"

text \<open>
  The ratios are Python floats: \<open>count / tot_ents\<close> is the true division of two ints,
  compared by \<open><\<close> with the float \<open>dev_size\<close> or \<open>test_size\<close>. The float type \<open>'f\<close>
  and its operations are parameters, so that nothing below depends on how a
  quotient is rounded or on how \<open><\<close> treats a NaN: \<open>fzero\<close> is the initial ratio
  \<open>0\<close>, \<open>truediv a b\<close> the quotient for \<open>b \<noteq> 0\<close>, \<open>fless\<close> the comparison, and
  \<open>ftimes x n\<close> the product \<open>x * n\<close> of the summary (\<open>cur_train_ratio*100\<close>).
\<close>

record 'f float_ops =
  fzero :: 'f
  truediv :: "int \<Rightarrow> int \<Rightarrow> 'f"
  fless :: "'f \<Rightarrow> 'f \<Rightarrow> bool"
  ftimes :: "'f \<Rightarrow> int \<Rightarrow> 'f"

text \<open>Python's \<open>a / b\<close> on ints: division by zero raises.\<close>

definition py_truediv :: "'f float_ops \<Rightarrow> int \<Rightarrow> int \<Rightarrow> py_exception + 'f" where
  "py_truediv ops a b = (if b = 0 then Inl ZeroDivisionError else Inr (truediv ops a b))"

subsection \<open>\<open>create_spacy_docs\<close>\<close>

text \<open>
  The inner loop (lines 61 to 67): one tuple per result, with the first label.
  \<open>ent["labels"][0]\<close> raises \<open>IndexError\<close> on an empty list of labels.
\<close>

fun extract_entities :: "result_value list \<Rightarrow> annotation list \<Rightarrow> py_exception + annotation list"
where
  "extract_entities [] annotated_entities = Inr annotated_entities"
| "extract_entities (ent # results) annotated_entities =
     (case v_labels ent of
        [] \<Rightarrow> Inl IndexError
      | label # _ \<Rightarrow>
          extract_entities results (annotated_entities @ [(v_start ent, v_end ent, label)]))"

text \<open>
  The accumulators of the function (lines 48 to 50). The source returns
  \<open>(docs, tot_ents)\<close> and prints \<open>misaligned\<close> in its summary; the model returns
  the three together, as the fields \<open>out_docs\<close>, \<open>out_tot_ents\<close> and
  \<open>out_misaligned\<close>.
\<close>

record conversion =
  out_docs :: "doc list"
  out_tot_ents :: int
  out_misaligned :: int

text \<open>Lines 69 to 77: the document of one kept task, and the update of the accumulators.\<close>

definition convert_task ::
  "spacy_lib \<Rightarrow> string \<Rightarrow> annotation list \<Rightarrow> conversion \<Rightarrow> py_exception + conversion"
where
  "convert_task L raw_text annotated_entities acc =
     (case nlp L raw_text of
        Inl e \<Rightarrow> Inl e
      | Inr d \<Rightarrow>
     (case offsets_to_biluo_tags L d annotated_entities of
        Inl e \<Rightarrow> Inl e
      | Inr tags \<Rightarrow>
     (case biluo_tags_to_spans L d tags of
        Inl e \<Rightarrow> Inl e
      | Inr entities \<Rightarrow>
     (case set_ents L d entities of
        Inl e \<Rightarrow> Inl e
      | Inr d' \<Rightarrow>
          Inr (acc\<lparr>out_docs := out_docs acc @ [d'],
                   out_tot_ents := out_tot_ents acc + int (length annotated_entities),
                   out_misaligned := out_misaligned acc +
                     (int (length annotated_entities) - int (length (doc_ents d')))\<rparr>)))))"

text \<open>
  The loop over the tasks (lines 52 to 77). A task whose list of completions has not
  exactly one element is passed over, and so is one whose completion has the key
  \<open>was_cancelled\<close> (\<open>continue\<close>).
\<close>

fun create_loop :: "spacy_lib \<Rightarrow> task list \<Rightarrow> conversion \<Rightarrow> py_exception + conversion" where
  "create_loop L [] acc = Inr acc"
| "create_loop L (t # tasks) acc =
     (if length (completions t) = 1 then
        (let c = completions t ! 0 in
         if was_cancelled c \<noteq> None then create_loop L tasks acc
         else
           (case extract_entities (result c) [] of
              Inl e \<Rightarrow> Inl e
            | Inr annotated_entities \<Rightarrow>
                (case convert_task L (reddit t) annotated_entities acc of
                   Inl e \<Rightarrow> Inl e
                 | Inr acc' \<Rightarrow> create_loop L tasks acc')))
      else create_loop L tasks acc)"

definition create_spacy_docs :: "spacy_lib \<Rightarrow> task list \<Rightarrow> py_exception + conversion" where
  "create_spacy_docs L completed_tasks =
     create_loop L completed_tasks \<lparr>out_docs = [], out_tot_ents = 0, out_misaligned = 0\<rparr>"

subsection \<open>\<open>train_test_dev_split\<close>\<close>

text \<open>The local variables of the function (lines 110 to 116).\<close>

record 'f split_state =
  train_docs :: "doc list"
  dev_docs :: "doc list"
  test_docs :: "doc list"
  train_count :: int
  dev_count :: int
  test_count :: int
  cur_train_ratio :: 'f
  cur_dev_ratio :: 'f
  cur_test_ratio :: 'f

definition init_state :: "'f float_ops \<Rightarrow> 'f split_state" where
  "init_state ops =
     \<lparr>train_docs = [], dev_docs = [], test_docs = [],
      train_count = 0, dev_count = 0, test_count = 0,
      cur_train_ratio = fzero ops, cur_dev_ratio = fzero ops, cur_test_ratio = fzero ops\<rparr>"

text \<open>
  The body of the loop (lines 122 to 135) for one document. In each branch the document
  is appended and the count updated before the division, which raises when
  \<open>tot_ents\<close> is zero; the exception leaves the function, and its locals are lost.
\<close>

definition split_step ::
  "'f float_ops \<Rightarrow> int \<Rightarrow> 'f \<Rightarrow> 'f \<Rightarrow> 'f split_state \<Rightarrow> doc \<Rightarrow> py_exception + 'f split_state"
where
  "split_step ops tot_ents test_size dev_size s d =
     (let num_entities = int (length (doc_ents d)) in
      if fless ops (cur_dev_ratio s) dev_size then
        (let s1 = s\<lparr>dev_docs := dev_docs s @ [d], dev_count := dev_count s + num_entities\<rparr> in
         case py_truediv ops (dev_count s1) tot_ents of
           Inl e \<Rightarrow> Inl e
         | Inr r \<Rightarrow> Inr (s1\<lparr>cur_dev_ratio := r\<rparr>))
      else if fless ops (cur_test_ratio s) test_size then
        (let s1 = s\<lparr>test_docs := test_docs s @ [d], test_count := test_count s + num_entities\<rparr> in
         case py_truediv ops (test_count s1) tot_ents of
           Inl e \<Rightarrow> Inl e
         | Inr r \<Rightarrow> Inr (s1\<lparr>cur_test_ratio := r\<rparr>))
      else
        (let s1 = s\<lparr>train_docs := train_docs s @ [d], train_count := train_count s + num_entities\<rparr> in
         case py_truediv ops (train_count s1) tot_ents of
           Inl e \<Rightarrow> Inl e
         | Inr r \<Rightarrow> Inr (s1\<lparr>cur_train_ratio := r\<rparr>)))"

text \<open>The loop \<open>for doc in docs\<close> (line 121), from a given state.\<close>

fun split_loop ::
  "'f float_ops \<Rightarrow> int \<Rightarrow> 'f \<Rightarrow> 'f \<Rightarrow> 'f split_state \<Rightarrow> doc list \<Rightarrow> py_exception + 'f split_state"
where
  "split_loop ops tot_ents test_size dev_size s [] = Inr s"
| "split_loop ops tot_ents test_size dev_size s (d # ds) =
     (case split_step ops tot_ents test_size dev_size s d of
        Inl e \<Rightarrow> Inl e
      | Inr s' \<Rightarrow> split_loop ops tot_ents test_size dev_size s' ds)"

text \<open>Python's \<open>str\<close> of a non-negative int, for the f-string of line 140.\<close>

definition digit_char :: "nat \<Rightarrow> char" where
  "digit_char n = char_of (48 + n)"

fun str_nat :: "nat \<Rightarrow> string" where
  "str_nat n = (if n < 10 then [digit_char n] else str_nat (n div 10) @ [digit_char (n mod 10)])"

declare str_nat.simps [simp del]

definition empty_partitions_msg :: "nat \<Rightarrow> nat \<Rightarrow> nat \<Rightarrow> string" where
  "empty_partitions_msg n_train n_test n_dev =
     ''One or more partitions are empty! '' @
     ''train: '' @ str_nat n_train @ '', test: '' @ str_nat n_test @
     '', dev: '' @ str_nat n_dev"

text \<open>
  Lines 118 and 119: the generator is seeded with 42, then the list is shuffled.
\<close>

definition seeded_shuffle :: "'g random_lib \<Rightarrow> addr list \<Rightarrow> addr list \<times> 'g" where
  "seeded_shuffle R refs = shuffle R (seed R 42) refs"

text \<open>
  Lines 143 to 156, which run when no partition is empty: the summary is printed,
  \<open>out_dir\<close> is created and the three partitions are written, train, then dev, then
  test. The first call that raises ends the function. The result is the state of the
  console and the file system, and the exception, if any.
\<close>

definition write_partitions ::
  "('f, 'w) io_lib \<Rightarrow> 'f float_ops \<Rightarrow> 'f split_state \<Rightarrow> string \<Rightarrow> 'w \<Rightarrow> 'w \<times> (py_exception + unit)"
where
  "write_partitions IO ops s out_dir w =
     (let summary =
        [(''train'', train_count s, length (train_docs s), ftimes ops (cur_train_ratio s) 100),
         (''test'', test_count s, length (test_docs s), ftimes ops (cur_test_ratio s) 100),
         (''dev'', dev_count s, length (dev_docs s), ftimes ops (cur_dev_ratio s) 100)]
      in
      case print_table IO summary w of
        (Some e, w1) \<Rightarrow> (w1, Inl e)
      | (None, w1) \<Rightarrow>
     (case mkdir IO out_dir w1 of
        (Some e, w2) \<Rightarrow> (w2, Inl e)
      | (None, w2) \<Rightarrow>
     (case to_disk IO (train_docs s) out_dir ''train.spacy'' w2 of
        (Some e, w3) \<Rightarrow> (w3, Inl e)
      | (None, w3) \<Rightarrow>
     (case to_disk IO (dev_docs s) out_dir ''dev.spacy'' w3 of
        (Some e, w4) \<Rightarrow> (w4, Inl e)
      | (None, w4) \<Rightarrow>
     (case to_disk IO (test_docs s) out_dir ''test.spacy'' w4 of
        (Some e, w5) \<Rightarrow> (w5, Inl e)
      | (None, w5) \<Rightarrow> (w5, Inr ()))))))"

text \<open>
  The function itself. The arguments \<open>g\<close>, \<open>w\<close> and \<open>h\<close> are the state of the
  generator, of the console and the file system, and the heap when the function is
  called; \<open>docs\<close> is the address of the caller's list. The result has two parts: the
  three states as the call leaves them, and the outcome, an exception or the return of
  \<open>None\<close>. \<open>random.shuffle(docs)\<close> writes the new order to the list object at
  \<open>docs\<close>; the loop then reads that list object and, for each reference in it, the
  \<open>Doc\<close> object it points to.
\<close>

definition train_test_dev_split ::
  "'g random_lib \<Rightarrow> ('f, 'w) io_lib \<Rightarrow> 'f float_ops \<Rightarrow> 'g \<Rightarrow> 'w \<Rightarrow> heap \<Rightarrow>
     addr \<Rightarrow> int \<Rightarrow> string \<Rightarrow> 'f \<Rightarrow> 'f \<Rightarrow> ('g \<times> 'w \<times> heap) \<times> (py_exception + unit)"
where
  "train_test_dev_split R IO ops g w h docs tot_ents out_dir test_size dev_size =
     (let (refs', g') = seeded_shuffle R (list_at h docs);
          h' = h\<lparr>list_at := (list_at h)(docs := refs')\<rparr>
      in
      case split_loop ops tot_ents test_size dev_size (init_state ops)
             (map (doc_at h') (list_at h' docs)) of
        Inl e \<Rightarrow> ((g', w, h'), Inl e)
      | Inr s \<Rightarrow>
          if train_docs s = [] \<or> test_docs s = [] \<or> dev_docs s = []
          then ((g', w, h'),
                Inl (ValueError (empty_partitions_msg
                  (length (train_docs s)) (length (test_docs s)) (length (dev_docs s)))))
          else (case write_partitions IO ops s out_dir w of
                  (w', r) \<Rightarrow> ((g', w', h'), r)))"

subsection \<open>\<open>main\<close>\<close>

text \<open>
  \<open>main\<close> runs the three steps inside one \<open>try\<close>. Its handlers catch \<open>KeyError\<close>,
  \<open>ValueError\<close> and \<open>FileNotFoundError\<close> and print the exception; any other
  exception leaves \<open>main\<close>. What \<open>unzip\<close> reads from the archive is a parameter.
\<close>

datatype main_outcome =
    Completed
  | Reported py_exception
  | Propagated py_exception

definition handlers :: "py_exception \<Rightarrow> main_outcome" where
  "handlers e =
     (case e of
        KeyError _ \<Rightarrow> Reported e
      | ValueError _ \<Rightarrow> Reported e
      | FileNotFoundError _ \<Rightarrow> Reported e
      | _ \<Rightarrow> Propagated e)"

text \<open>
  The objects \<open>create_spacy_docs\<close> returns to \<open>main\<close>: the list \<open>docs\<close>, here the list
  object at address 0, and the documents it refers to, the \<open>i\<close>-th of them at address
  \<open>i\<close>.
\<close>

definition heap_of :: "doc list \<Rightarrow> heap" where
  "heap_of ds =
     \<lparr>doc_at = (\<lambda>a. if a < length ds then ds ! a else \<lparr>doc_text = [], doc_ents = []\<rparr>),
      list_at = (\<lambda>r. if r = 0 then [0..<length ds] else [])\<rparr>"

definition main ::
  "(string \<Rightarrow> py_exception + task list) \<Rightarrow> spacy_lib \<Rightarrow> 'g random_lib \<Rightarrow> ('f, 'w) io_lib \<Rightarrow>
     'f float_ops \<Rightarrow> 'g \<Rightarrow> 'w \<Rightarrow> string \<Rightarrow> string \<Rightarrow> 'f \<Rightarrow> 'f \<Rightarrow> main_outcome \<times> 'w"
where
  "main unzip L R IO ops g w zip_file out_dir test_size dev_size =
     (case unzip zip_file of
        Inl e \<Rightarrow> (handlers e, w)
      | Inr tasks \<Rightarrow>
     (case create_spacy_docs L tasks of
        Inl e \<Rightarrow> (handlers e, w)
      | Inr c \<Rightarrow>
     (case train_test_dev_split R IO ops g w (heap_of (out_docs c)) 0 (out_tot_ents c)
             out_dir test_size dev_size of
        ((g', w', h'), Inl e) \<Rightarrow> (handlers e, w')
      | ((g', w', h'), Inr u) \<Rightarrow> (Completed, w'))))"

subsection \<open>Notions used to state the properties of the split\<close>

text \<open>
  The documents the loop runs over: those the caller's list refers to after the seeded
  shuffle, in its order.
\<close>

definition shuffled_docs :: "'g random_lib \<Rightarrow> heap \<Rightarrow> addr \<Rightarrow> doc list" where
  "shuffled_docs R h docs = map (doc_at h) (fst (seeded_shuffle R (list_at h docs)))"

datatype partition = Train | Dev | Test

text \<open>
  Between the states \<open>a\<close> and \<open>b\<close> the document \<open>d\<close> was appended to the
  partition \<open>p\<close>, and the other two partitions did not change.
\<close>

definition assigned_to :: "partition \<Rightarrow> doc \<Rightarrow> 'f split_state \<Rightarrow> 'f split_state \<Rightarrow> bool" where
  "assigned_to p d a b =
     (case p of
        Dev \<Rightarrow> dev_docs b = dev_docs a @ [d] \<and> test_docs b = test_docs a \<and>
               train_docs b = train_docs a
      | Test \<Rightarrow> test_docs b = test_docs a @ [d] \<and> dev_docs b = dev_docs a \<and>
               train_docs b = train_docs a
      | Train \<Rightarrow> train_docs b = train_docs a @ [d] \<and> dev_docs b = dev_docs a \<and>
               test_docs b = test_docs a)"

text \<open>
  The greedy rule in the words of the specification: dev while its running ratio is
  below \<open>dev_size\<close>, else test while its running ratio is below \<open>test_size\<close>,
  else train.
\<close>

definition greedy_choice :: "'f float_ops \<Rightarrow> 'f \<Rightarrow> 'f \<Rightarrow> 'f split_state \<Rightarrow> partition" where
  "greedy_choice ops test_size dev_size a =
     (if fless ops (cur_dev_ratio a) dev_size then Dev
      else if fless ops (cur_test_ratio a) test_size then Test
      else Train)"

subsection \<open>The task filter of the specification\<close>

text \<open>
  The specification describes the first lines of \<open>create_spacy_docs\<close> as a filter of
  its own: a task is included iff it has exactly one completion and that completion
  carries no cancellation marker; each included task gives its raw text and the list of
  its annotations, each normalised to \<open>(start, end, label)\<close> with the first label.
  The three definitions below follow these words, to be compared with the loop above.
\<close>

definition admitted :: "task \<Rightarrow> bool" where
  "admitted t \<longleftrightarrow> length (completions t) = 1 \<and> was_cancelled (hd (completions t)) = None"

definition normalize :: "result_value \<Rightarrow> annotation" where
  "normalize v = (v_start v, v_end v, hd (v_labels v))"

definition task_filter :: "task list \<Rightarrow> (string \<times> annotation list) list" where
  "task_filter tasks =
     map (\<lambda>t. (reddit t, map normalize (result (hd (completions t))))) (filter admitted tasks)"

text \<open>The alignment of lines 69 to 77, run over a list of such pairs in order.\<close>

fun convert_all ::
  "spacy_lib \<Rightarrow> (string \<times> annotation list) list \<Rightarrow> conversion \<Rightarrow> py_exception + conversion"
where
  "convert_all L [] acc = Inr acc"
| "convert_all L ((raw_text, annotated_entities) # rest) acc =
     (case convert_task L raw_text annotated_entities acc of
        Inl e \<Rightarrow> Inl e
      | Inr acc' \<Rightarrow> convert_all L rest acc')"

subsection \<open>Stand-ins for the libraries, to run the model on concrete inputs\<close>

text \<open>
  The theorems below hold for every library. To evaluate the model on a concrete input
  some library has to be chosen; the four below are small ones, and they are used for
  that purpose only.

  Exact rational arithmetic in place of floats.
\<close>

definition exact_ops :: "rat float_ops" where
  "exact_ops =
     \<lparr>fzero = 0, truediv = (\<lambda>a b. of_int a / of_int b), fless = (\<lambda>x y. x < y),
      ftimes = (\<lambda>x n. x * of_int n)\<rparr>"

text \<open>
  A linear congruential generator, and the shuffle of Fisher and Yates over it:
  for \<open>i\<close> from the last index down to 1, exchange the elements at \<open>i\<close> and at a
  drawn \<open>j \<le> i\<close>.
\<close>

definition lcg_next :: "nat \<Rightarrow> nat" where
  "lcg_next g = (g * 75 + 74) mod 65537"

fun fisher_yates :: "nat \<Rightarrow> nat \<Rightarrow> 'a list \<Rightarrow> 'a list \<times> nat" where
  "fisher_yates g 0 xs = (xs, g)"
| "fisher_yates g (Suc i) xs =
     (let g' = lcg_next g; j = g' mod (Suc (Suc i))
      in fisher_yates g' i (xs[Suc i := xs ! j, j := xs ! Suc i]))"

definition lcg_random :: "nat random_lib" where
  "lcg_random =
     \<lparr>seed = (\<lambda>a. nat \<bar>a\<bar>), shuffle = (\<lambda>g xs. fisher_yates g (length xs - 1) xs)\<rparr>"

text \<open>
  A tokenizer that splits at spaces, and an alignment that resolves the annotations
  that cover exactly one token: such a token is tagged \<open>U-label\<close>, every other
  token \<open>O\<close>.
\<close>

fun ws_scan :: "nat \<Rightarrow> nat option \<Rightarrow> string \<Rightarrow> (nat \<times> nat) list" where
  "ws_scan i None [] = []"
| "ws_scan i (Some b) [] = [(b, i)]"
| "ws_scan i None (c # cs) =
     (if c = CHR '' '' then ws_scan (Suc i) None cs else ws_scan (Suc i) (Some i) cs)"
| "ws_scan i (Some b) (c # cs) =
     (if c = CHR '' '' then (b, i) # ws_scan (Suc i) None cs else ws_scan (Suc i) (Some b) cs)"

definition ws_tag :: "annotation list \<Rightarrow> nat \<times> nat \<Rightarrow> string" where
  "ws_tag annotated tok =
     (case filter (\<lambda>(a, b, l). a = int (fst tok) \<and> b = int (snd tok)) annotated of
        [] \<Rightarrow> ''O''
      | (a, b, l) # _ \<Rightarrow> ''U-'' @ l)"

definition ws_spans :: "string list \<Rightarrow> span list" where
  "ws_spans tags =
     map (\<lambda>(i, tag). (i, Suc i, drop 2 tag))
       (filter (\<lambda>(i, tag). take 2 tag = ''U-'') (zip [0..<length tags] tags))"

definition ws_lib :: spacy_lib where
  "ws_lib =
     \<lparr>nlp = (\<lambda>raw_text. Inr \<lparr>doc_text = raw_text, doc_ents = []\<rparr>),
      offsets_to_biluo_tags =
        (\<lambda>d annotated. Inr (map (ws_tag annotated) (ws_scan 0 None (doc_text d)))),
      biluo_tags_to_spans = (\<lambda>d tags. Inr (ws_spans tags)),
      set_ents = (\<lambda>d entities. Inr (d\<lparr>doc_ents := entities\<rparr>))\<rparr>"

text \<open>
  A console and a file system that are the log of what was printed, created and
  written. Only the working directory exists: \<open>mkdir\<close> raises
  \<open>FileNotFoundError\<close> for a path that has a parent, and nothing else fails.
\<close>

datatype 'f io_event =
    Printed "(string \<times> int \<times> nat \<times> 'f) list"
  | MadeDir string
  | Wrote string string "doc list"

definition log_io :: "('f, 'f io_event list) io_lib" where
  "log_io =
     \<lparr>print_table = (\<lambda>summary w. (None, w @ [Printed summary])),
      mkdir = (\<lambda>out_dir w.
        if CHR ''/'' \<in> set out_dir then (Some (FileNotFoundError out_dir), w)
        else (None, w @ [MadeDir out_dir])),
      to_disk = (\<lambda>ds out_dir name w. (None, w @ [Wrote out_dir name ds]))\<rparr>"

subsection \<open>Example inputs\<close>

definition doc_btc :: doc where
  "doc_btc = \<lparr>doc_text = ''buy BTC'', doc_ents = [(1, 2, ''COIN'')]\<rparr>"

definition doc_eth :: doc where
  "doc_eth = \<lparr>doc_text = ''ETH and ADA'', doc_ents = [(0, 1, ''COIN''), (2, 3, ''COIN'')]\<rparr>"

definition doc_doge :: doc where
  "doc_doge = \<lparr>doc_text = ''sell DOGE'', doc_ents = [(1, 2, ''COIN'')]\<rparr>"

definition doc_xmr :: doc where
  "doc_xmr = \<lparr>doc_text = ''XMR'', doc_ents = [(0, 1, ''COIN'')]\<rparr>"

text \<open>Four documents with five entities, and one document without any.\<close>

definition ex_docs :: "doc list" where
  "ex_docs = [doc_btc, doc_eth, doc_doge, doc_xmr]"

definition doc_hodl :: doc where
  "doc_hodl = \<lparr>doc_text = ''hodl'', doc_ents = []\<rparr>"

text \<open>
  Four tasks: one with a single completion and two results (the second result ends
  inside the token \<open>is\<close>), one without a completion, one whose completion was
  cancelled, one with two completions.
\<close>

definition ex_tasks :: "task list" where
  "ex_tasks =
     [\<lparr>completions =
         [\<lparr>was_cancelled = None,
           result = [\<lparr>v_start = 0, v_end = 3, v_labels = [''COIN'', ''TICKER'']\<rparr>,
                     \<lparr>v_start = 5, v_end = 7, v_labels = [''COIN'']\<rparr>]\<rparr>],
       reddit = ''BTC is up''\<rparr>,
      \<lparr>completions = [], reddit = ''no completion''\<rparr>,
      \<lparr>completions =
         [\<lparr>was_cancelled = Some True,
           result = [\<lparr>v_start = 0, v_end = 3, v_labels = []\<rparr>]\<rparr>],
       reddit = ''ETH skipped''\<rparr>,
      \<lparr>completions =
         [\<lparr>was_cancelled = None, result = []\<rparr>, \<lparr>was_cancelled = None, result = []\<rparr>],
       reddit = ''two completions''\<rparr>]"

text \<open>A task whose only completion has no result: its document has no entity.\<close>

definition task_hodl :: task where
  "task_hodl = \<lparr>completions = [\<lparr>was_cancelled = None, result = []\<rparr>], reddit = ''hodl''\<rparr>"


section \<open>Properties of the split\<close>

subsection \<open>The loop\<close>

lemma split_loop_append:
  "split_loop ops tot ts dv s (xs @ ys) =
     (case split_loop ops tot ts dv s xs of
        Inl e \<Rightarrow> Inl e
      | Inr s' \<Rightarrow> split_loop ops tot ts dv s' ys)"
  by (induction xs arbitrary: s) (auto split: sum.splits)

text \<open>A step that returns has divided by a non-zero total and has taken one branch.\<close>

lemma split_step_cases:
  assumes "split_step ops tot ts dv s d = Inr s'"
  shows "tot \<noteq> 0 \<and>
    (if fless ops (cur_dev_ratio s) dv then
       s' = s\<lparr>dev_docs := dev_docs s @ [d],
              dev_count := dev_count s + int (length (doc_ents d)),
              cur_dev_ratio := truediv ops (dev_count s + int (length (doc_ents d))) tot\<rparr>
     else if fless ops (cur_test_ratio s) ts then
       s' = s\<lparr>test_docs := test_docs s @ [d],
              test_count := test_count s + int (length (doc_ents d)),
              cur_test_ratio := truediv ops (test_count s + int (length (doc_ents d))) tot\<rparr>
     else
       s' = s\<lparr>train_docs := train_docs s @ [d],
              train_count := train_count s + int (length (doc_ents d)),
              cur_train_ratio := truediv ops (train_count s + int (length (doc_ents d))) tot\<rparr>)"
  using assms
  by (auto simp: split_step_def py_truediv_def Let_def split: if_splits)

lemma split_step_total:
  "tot \<noteq> 0 \<Longrightarrow> \<exists>s'. split_step ops tot ts dv s d = Inr s'"
  by (simp add: split_step_def py_truediv_def Let_def)

lemma split_step_zero:
  "split_step ops 0 ts dv s d = Inl ZeroDivisionError"
  by (simp add: split_step_def py_truediv_def Let_def)

lemma split_loop_total:
  "tot \<noteq> 0 \<Longrightarrow> \<exists>s'. split_loop ops tot ts dv s ds = Inr s'"
proof (induction ds arbitrary: s)
  case Nil
  show ?case by simp
next
  case (Cons d ds)
  from split_step_total [OF Cons.prems, of ops ts dv s d] obtain s1 where
    st: "split_step ops tot ts dv s d = Inr s1" by blast
  from Cons.IH [OF Cons.prems, of s1] obtain s2 where
    "split_loop ops tot ts dv s1 ds = Inr s2" by blast
  with st show ?case by simp
qed

lemma split_loop_zero:
  "ds \<noteq> [] \<Longrightarrow> split_loop ops 0 ts dv s ds = Inl ZeroDivisionError"
  by (cases ds) (simp_all add: split_step_zero)

text \<open>The division by zero is the only way the loop raises.\<close>

lemma split_loop_error:
  "split_loop ops tot ts dv s ds = Inl e \<Longrightarrow> e = ZeroDivisionError \<and> tot = 0 \<and> ds \<noteq> []"
proof (induction ds arbitrary: s)
  case Nil
  then show ?case by simp
next
  case (Cons d ds)
  then show ?case
    by (auto simp: split_step_def py_truediv_def Let_def split: sum.splits if_splits)
qed

lemma split_step_assigned:
  assumes "split_step ops tot ts dv a d = Inr b"
  shows "assigned_to (greedy_choice ops ts dv a) d a b"
  using split_step_cases [OF assms]
  by (auto simp: assigned_to_def greedy_choice_def split: if_splits)

lemma assigned_to_unique:
  "assigned_to p d a b \<Longrightarrow> assigned_to q d a b \<Longrightarrow> p = q"
  by (cases p; cases q) (simp_all add: assigned_to_def)

lemma assigned_to_mset:
  assumes "assigned_to p d a b"
  shows "mset (train_docs b) + mset (dev_docs b) + mset (test_docs b) =
         mset (train_docs a) + mset (dev_docs a) + mset (test_docs a) + {#d#}"
  using assms by (cases p) (simp_all add: assigned_to_def)

lemma split_loop_mset:
  "split_loop ops tot ts dv s ds = Inr s' \<Longrightarrow>
   mset (train_docs s') + mset (dev_docs s') + mset (test_docs s') =
   mset (train_docs s) + mset (dev_docs s) + mset (test_docs s) + mset ds"
proof (induction ds arbitrary: s)
  case Nil
  then show ?case by simp
next
  case (Cons d ds)
  then obtain s1 where st: "split_step ops tot ts dv s d = Inr s1"
    and lp: "split_loop ops tot ts dv s1 ds = Inr s'"
    by (auto split: sum.splits)
  from Cons.IH [OF lp] assigned_to_mset [OF split_step_assigned [OF st]]
  show ?case by simp
qed

text \<open>A run over \<open>pre @ d # post\<close> passes through the state after \<open>pre\<close>.\<close>

lemma split_loop_decompose:
  assumes "split_loop ops tot ts dv s (pre @ d # post) = Inr s_end"
  obtains a b where "split_loop ops tot ts dv s pre = Inr a"
    and "split_step ops tot ts dv a d = Inr b"
    and "split_loop ops tot ts dv b post = Inr s_end"
  using assms by (auto simp: split_loop_append split: sum.splits)

text \<open>
  The ratio of dev changes only when dev receives a document, and dev receives one
  only while its ratio is below \<open>dev_size\<close>: once it is not below, both stay as they
  are. The same holds for test.
\<close>

lemma dev_saturated_step:
  assumes "split_step ops tot ts dv a d = Inr b" and "\<not> fless ops (cur_dev_ratio a) dv"
  shows "dev_docs b = dev_docs a \<and> cur_dev_ratio b = cur_dev_ratio a"
  using split_step_cases [OF assms(1)] assms(2) by (auto split: if_splits)

lemma dev_saturated_loop:
  "split_loop ops tot ts dv a ds = Inr b \<Longrightarrow> \<not> fless ops (cur_dev_ratio a) dv \<Longrightarrow>
   dev_docs b = dev_docs a \<and> cur_dev_ratio b = cur_dev_ratio a"
proof (induction ds arbitrary: a)
  case Nil
  then show ?case by simp
next
  case (Cons d ds)
  then obtain a1 where st: "split_step ops tot ts dv a d = Inr a1"
    and lp: "split_loop ops tot ts dv a1 ds = Inr b"
    by (auto split: sum.splits)
  from dev_saturated_step [OF st Cons.prems(2)]
  have keep: "dev_docs a1 = dev_docs a \<and> cur_dev_ratio a1 = cur_dev_ratio a" .
  with Cons.prems(2) have "\<not> fless ops (cur_dev_ratio a1) dv" by simp
  from Cons.IH [OF lp this] keep show ?case by simp
qed

lemma test_saturated_step:
  assumes "split_step ops tot ts dv a d = Inr b" and "\<not> fless ops (cur_test_ratio a) ts"
  shows "test_docs b = test_docs a \<and> cur_test_ratio b = cur_test_ratio a"
  using split_step_cases [OF assms(1)] assms(2) by (auto split: if_splits)

lemma test_saturated_loop:
  "split_loop ops tot ts dv a ds = Inr b \<Longrightarrow> \<not> fless ops (cur_test_ratio a) ts \<Longrightarrow>
   test_docs b = test_docs a \<and> cur_test_ratio b = cur_test_ratio a"
proof (induction ds arbitrary: a)
  case Nil
  then show ?case by simp
next
  case (Cons d ds)
  then obtain a1 where st: "split_step ops tot ts dv a d = Inr a1"
    and lp: "split_loop ops tot ts dv a1 ds = Inr b"
    by (auto split: sum.splits)
  from test_saturated_step [OF st Cons.prems(2)]
  have keep: "test_docs a1 = test_docs a \<and> cur_test_ratio a1 = cur_test_ratio a" .
  with Cons.prems(2) have "\<not> fless ops (cur_test_ratio a1) ts" by simp
  from Cons.IH [OF lp this] keep show ?case by simp
qed

text \<open>
  The outcome of the function in terms of the loop over the documents of the shuffled
  list, and the heap the call leaves behind.
\<close>

lemma split_outcome:
  "snd (train_test_dev_split R IO ops g w h docs tot out_dir ts dv) =
     (case split_loop ops tot ts dv (init_state ops) (shuffled_docs R h docs) of
        Inl e \<Rightarrow> Inl e
      | Inr s \<Rightarrow>
          if train_docs s = [] \<or> test_docs s = [] \<or> dev_docs s = []
          then Inl (ValueError (empty_partitions_msg
                 (length (train_docs s)) (length (test_docs s)) (length (dev_docs s))))
          else snd (write_partitions IO ops s out_dir w))"
  by (cases "seeded_shuffle R (list_at h docs)")
     (simp add: train_test_dev_split_def shuffled_docs_def split: sum.splits prod.splits)


lemma shuffled_nonempty:
  assumes "list_at h docs \<noteq> []"
    and "mset (fst (seeded_shuffle R (list_at h docs))) = mset (list_at h docs)"
  shows "shuffled_docs R h docs \<noteq> []"
proof -
  from assms have "fst (seeded_shuffle R (list_at h docs)) \<noteq> []"
    by (metis mset_zero_iff)
  then show ?thesis by (simp add: shuffled_docs_def)
qed

text \<open>A shuffle that returns the elements it was given leaves a list of one element as it is.\<close>

lemma singleton_shuffle:
  assumes "mset (fst (seeded_shuffle R [a])) = mset [a]"
  shows "fst (seeded_shuffle R [a]) = [a]"
  using assms by (metis mset_single_iff_right mset.simps(1,2))

text \<open>The example documents under the stand-in generator.\<close>

lemma shuffled_ex_docs:
  "shuffled_docs lcg_random (heap_of ex_docs) 0 = [doc_eth, doc_xmr] @ doc_doge # [doc_btc]"
  by code_simp

lemma shuffled_single: "shuffled_docs lcg_random (heap_of [d]) 0 = [d]"
  by (simp add: shuffled_docs_def seeded_shuffle_def lcg_random_def heap_of_def)

subsection \<open>A run that writes the three files\<close>

text \<open>
  The four example documents hold five entities.  With both sizes at \<open>0.2\<close> the loop
  fills dev, then test, then train; the table is printed, the directory is made, and
  \<open>train.spacy\<close>, \<open>dev.spacy\<close> and \<open>test.spacy\<close> are written in that order
  (lines 143 to 156).  Under a directory that cannot be made the call raises after the table
  has been printed.
\<close>

lemma split_example_run:
  "split_loop exact_ops 5 (1/5) (1/5) (init_state exact_ops) [doc_eth, doc_xmr, doc_doge, doc_btc]
     = Inr \<lparr>train_docs = [doc_doge, doc_btc], dev_docs = [doc_eth], test_docs = [doc_xmr],
            train_count = 2, dev_count = 2, test_count = 1,
            cur_train_ratio = 2/5, cur_dev_ratio = 2/5, cur_test_ratio = 1/5\<rparr>"
  by (simp add: split_step_def py_truediv_def exact_ops_def init_state_def
        doc_eth_def doc_xmr_def doc_doge_def doc_btc_def)

lemma split_example_outcome:
  "snd (train_test_dev_split lcg_random log_io exact_ops (7::nat) [] (heap_of ex_docs) 0
      5 ''corpus'' (1/5) (1/5)) = Inr ()
   \<and> fst (snd (fst (train_test_dev_split lcg_random log_io exact_ops (7::nat) [] (heap_of ex_docs) 0
      5 ''corpus'' (1/5) (1/5))))
     = [Printed [(''train'', 2, 2, 40), (''test'', 1, 1, 20), (''dev'', 2, 1, 40)],
        MadeDir ''corpus'',
        Wrote ''corpus'' ''train.spacy'' [doc_doge, doc_btc],
        Wrote ''corpus'' ''dev.spacy'' [doc_eth],
        Wrote ''corpus'' ''test.spacy'' [doc_xmr]]
   \<and> snd (train_test_dev_split lcg_random log_io exact_ops (7::nat) [] (heap_of ex_docs) 0
      5 ''missing/corpus'' (1/5) (1/5)) = Inl (FileNotFoundError ''missing/corpus'')"
proof -
  obtain a b where ab: "seeded_shuffle lcg_random (list_at (heap_of ex_docs) 0) = (a, b)"
    by (cases "seeded_shuffle lcg_random (list_at (heap_of ex_docs) 0)")
  have sh: "map (doc_at (heap_of ex_docs)) a = [doc_eth, doc_xmr] @ doc_doge # [doc_btc]"
    using shuffled_ex_docs ab by (simp add: shuffled_docs_def)
  have ops: "ftimes exact_ops (2/5) 100 = 40" "ftimes exact_ops (1/5) 100 = 20"
    by (simp_all add: exact_ops_def)
  show ?thesis
    using ab sh
    by (simp del: split_loop.simps add: train_test_dev_split_def Let_def split_example_run
          write_partitions_def log_io_def ops)
qed

subsection \<open>Partition coverage\<close>

text \<open>
  C1. Partition coverage: the greedy rule assigns each document of the shuffled list to
  exactly one of train, dev and test, for every input list of documents. The code does
  not do so for a list with documents but without entities, where \<open>tot_ents\<close> is 0:
  the first document is appended to dev and the update of the ratio divides by
  \<open>tot_ents\<close> (line 127). For the list of one document without entities the loop raises
  \<open>ZeroDivisionError\<close>, and so does the function, which leaves no partition behind. The
  docstring names \<open>ValueError\<close> as the only exception of the function, and with
  \<open>tot_ents = 0\<close> and no document at all the function does raise that \<open>ValueError\<close>.
\<close>

theorem coverage_fails_at_zero_total:
  "split_loop exact_ops 0 (1/5) (1/5) (init_state exact_ops)
       (shuffled_docs lcg_random (heap_of [doc_hodl]) 0) = Inl ZeroDivisionError
   \<and> snd (train_test_dev_split lcg_random log_io exact_ops (7::nat) [] (heap_of [doc_hodl]) 0
          0 ''corpus'' (1/5) (1/5)) = Inl ZeroDivisionError
   \<and> snd (train_test_dev_split lcg_random log_io exact_ops (7::nat) [] (heap_of []) 0
          0 ''corpus'' (1/5) (1/5))
       = Inl (ValueError ''One or more partitions are empty! train: 0, test: 0, dev: 0'')"
proof -
  have msg: "empty_partitions_msg 0 0 0 =
      ''One or more partitions are empty! train: 0, test: 0, dev: 0''"
    by code_simp
  have none: "shuffled_docs lcg_random (heap_of []) 0 = []"
    by (simp add: shuffled_docs_def seeded_shuffle_def lcg_random_def heap_of_def)
  show ?thesis
    by (simp add: split_outcome shuffled_single split_step_zero none init_state_def msg)
qed

text \<open>
  Whenever \<open>tot_ents\<close> is not 0 the loop completes; the train, dev and test lists of
  its final state are together the shuffled list, each document once; and at every
  position of the shuffled list the document there is appended to the one partition
  that the greedy rule names in the state reached so far, and to no other.
\<close>

lemma greedy_partition_coverage:
  assumes "tot_ents \<noteq> 0"
  shows "\<exists>s. split_loop ops tot_ents test_size dev_size (init_state ops) (shuffled_docs R h docs)
          = Inr s
     \<and> mset (train_docs s) + mset (dev_docs s) + mset (test_docs s) = mset (shuffled_docs R h docs)
     \<and> (\<forall>pre d post. shuffled_docs R h docs = pre @ d # post \<longrightarrow>
          (\<exists>a b. split_loop ops tot_ents test_size dev_size (init_state ops) pre = Inr a
               \<and> split_loop ops tot_ents test_size dev_size (init_state ops) (pre @ [d]) = Inr b
               \<and> assigned_to (greedy_choice ops test_size dev_size a) d a b))"
proof -
  let ?run = "split_loop ops tot_ents test_size dev_size (init_state ops)"
  from split_loop_total [OF assms, of ops test_size dev_size "init_state ops"
      "shuffled_docs R h docs"]
  obtain s where s: "?run (shuffled_docs R h docs) = Inr s"
    by blast
  from split_loop_mset [OF s]
  have cover: "mset (train_docs s) + mset (dev_docs s) + mset (test_docs s)
      = mset (shuffled_docs R h docs)"
    by (simp add: init_state_def)
  have greedy: "\<exists>a b. ?run pre = Inr a \<and> ?run (pre @ [d]) = Inr b
      \<and> assigned_to (greedy_choice ops test_size dev_size a) d a b"
    if "shuffled_docs R h docs = pre @ d # post" for pre d post
  proof -
    from s that have "?run (pre @ d # post) = Inr s" by simp
    then obtain a b where a: "?run pre = Inr a"
      and b: "split_step ops tot_ents test_size dev_size a d = Inr b"
      by (rule split_loop_decompose)
    from a b have "?run (pre @ [d]) = Inr b" by (simp add: split_loop_append)
    with a split_step_assigned [OF b] show ?thesis by blast
  qed
  from s cover greedy show ?thesis by blast
qed

subsection \<open>The error for an empty partition\<close>

text \<open>
  C2. The function is to fail with the \<open>ValueError\<close> of line 139, which names the
  three document counts, if and only if one of the three partitions holds no document
  after the assignment. The code does so only when \<open>tot_ents\<close> is not 0. For the list
  of one document without entities, with \<open>tot_ents = 0\<close>, train and test hold no
  document, yet the function fails with \<open>ZeroDivisionError\<close>, raised by the division
  of line 127 before the check of line 138 is reached. For one document with one
  entity and \<open>tot_ents = 1\<close> the same two partitions are empty and the function
  raises the \<open>ValueError\<close> with the counts.
\<close>

theorem empty_partitions_unreported_at_zero_total:
  "snd (train_test_dev_split lcg_random log_io exact_ops (7::nat) [] (heap_of [doc_hodl]) 0
          0 ''corpus'' (1/5) (1/5)) = Inl ZeroDivisionError
   \<and> snd (train_test_dev_split lcg_random log_io exact_ops (7::nat) [] (heap_of [doc_xmr]) 0
          1 ''corpus'' (1/5) (1/5))
       = Inl (ValueError ''One or more partitions are empty! train: 0, test: 0, dev: 1'')"
proof -
  have msg: "empty_partitions_msg 0 0 (Suc 0) =
      ''One or more partitions are empty! train: 0, test: 0, dev: 1''"
    by code_simp
  show ?thesis
    by (simp add: split_outcome shuffled_single split_step_zero split_step_def py_truediv_def
          exact_ops_def init_state_def doc_xmr_def msg)
qed

text \<open>
  When the loop completes, the function raises the \<open>ValueError\<close> with the three
  counts if one of the lists is empty, and otherwise goes on to print and to write.
\<close>

lemma empty_partition_error:
  assumes "split_loop ops tot_ents test_size dev_size (init_state ops) (shuffled_docs R h docs)
           = Inr s"
  shows "snd (train_test_dev_split R IO ops g w h docs tot_ents out_dir test_size dev_size) =
     (if train_docs s = [] \<or> test_docs s = [] \<or> dev_docs s = []
      then Inl (ValueError (empty_partitions_msg
             (length (train_docs s)) (length (test_docs s)) (length (dev_docs s))))
      else snd (write_partitions IO ops s out_dir w))"
  using assms by (simp add: split_outcome)

subsection \<open>Determinism\<close>

text \<open>
  C4. The split is deterministic: the state \<open>g\<close> in which a call finds the generator of
  \<open>random\<close> has no influence, since the call seeds the generator with 42 before it
  shuffles. Two calls with the same documents, \<open>tot_ents\<close>, \<open>test_size\<close> and
  \<open>dev_size\<close> give the same outcome, the same order of the caller's list and leave the
  generator in the same state, whatever the generator's state was before each.
\<close>

theorem split_deterministic:
  "train_test_dev_split R IO ops g1 w h docs tot_ents out_dir test_size dev_size =
   train_test_dev_split R IO ops g2 w h docs tot_ents out_dir test_size dev_size"
  by (simp add: train_test_dev_split_def)

subsection \<open>The order of priority\<close>

text \<open>
  C5. In a run of the loop over the shuffled list, at the document \<open>d\<close> that follows
  the prefix \<open>pre\<close>, with \<open>a\<close> the state before and \<open>b\<close> the state after \<open>d\<close>:
  \<open>d\<close> goes to test only if the running ratio of dev is not below \<open>dev_size\<close>; it goes
  to train only if neither the ratio of dev nor that of test is below its target; and
  if the ratio of dev is not below \<open>dev_size\<close>, then \<open>d\<close> does not go to dev and dev
  receives no document in the rest of the run. The same holds for test.
\<close>

theorem priority_order:
  assumes "shuffled_docs R h docs = pre @ d # post"
    and "split_loop ops tot_ents test_size dev_size (init_state ops) (shuffled_docs R h docs)
         = Inr s_end"
  shows "\<exists>a b. split_loop ops tot_ents test_size dev_size (init_state ops) pre = Inr a
      \<and> split_step ops tot_ents test_size dev_size a d = Inr b
      \<and> (assigned_to Test d a b \<longrightarrow> \<not> fless ops (cur_dev_ratio a) dev_size)
      \<and> (assigned_to Train d a b \<longrightarrow>
           \<not> fless ops (cur_dev_ratio a) dev_size \<and> \<not> fless ops (cur_test_ratio a) test_size)
      \<and> (\<not> fless ops (cur_dev_ratio a) dev_size \<longrightarrow>
           \<not> assigned_to Dev d a b \<and> dev_docs s_end = dev_docs a)
      \<and> (\<not> fless ops (cur_test_ratio a) test_size \<longrightarrow>
           \<not> assigned_to Test d a b \<and> test_docs s_end = test_docs a)"
proof -
  let ?run = "split_loop ops tot_ents test_size dev_size"
  from assms have "?run (init_state ops) (pre @ d # post) = Inr s_end" by simp
  then obtain a b where a: "?run (init_state ops) pre = Inr a"
    and b: "split_step ops tot_ents test_size dev_size a d = Inr b"
    and rest: "?run b post = Inr s_end"
    by (rule split_loop_decompose)
  let ?c = "greedy_choice ops test_size dev_size a"
  have asg: "assigned_to ?c d a b" by (rule split_step_assigned [OF b])
  have eq: "p = ?c" if "assigned_to p d a b" for p
    using that asg by (rule assigned_to_unique)
  have t: "\<not> fless ops (cur_dev_ratio a) dev_size" if "assigned_to Test d a b"
    using eq [OF that] by (simp add: greedy_choice_def split: if_splits)
  have tr: "\<not> fless ops (cur_dev_ratio a) dev_size \<and> \<not> fless ops (cur_test_ratio a) test_size"
    if "assigned_to Train d a b"
    using eq [OF that] by (simp add: greedy_choice_def split: if_splits)
  from b rest have tail: "?run a (d # post) = Inr s_end" by simp
  have dv: "\<not> assigned_to Dev d a b \<and> dev_docs s_end = dev_docs a"
    if sat: "\<not> fless ops (cur_dev_ratio a) dev_size"
  proof
    show "\<not> assigned_to Dev d a b"
    proof
      assume "assigned_to Dev d a b"
      from eq [OF this] sat show False by (simp add: greedy_choice_def split: if_splits)
    qed
    from dev_saturated_loop [OF tail sat] show "dev_docs s_end = dev_docs a" by simp
  qed
  have te: "\<not> assigned_to Test d a b \<and> test_docs s_end = test_docs a"
    if sat: "\<not> fless ops (cur_test_ratio a) test_size"
  proof
    show "\<not> assigned_to Test d a b"
    proof
      assume "assigned_to Test d a b"
      from eq [OF this] sat show False by (simp add: greedy_choice_def split: if_splits)
    qed
    from test_saturated_loop [OF tail sat] show "test_docs s_end = test_docs a" by simp
  qed
  from a b t tr dv te show ?thesis by blast
qed

text \<open>
  In the split of the example documents the third document of the shuffled list goes
  to train: dev holds two of the five entities and test one, and neither receives a
  document afterwards.
\<close>

theorem priority_order_witness:
  "shuffled_docs lcg_random (heap_of ex_docs) 0 = [doc_eth, doc_xmr] @ doc_doge # [doc_btc]
   \<and> (\<exists>s_end a b.
        split_loop exact_ops 5 (1/5) (1/5) (init_state exact_ops)
          (shuffled_docs lcg_random (heap_of ex_docs) 0) = Inr s_end
      \<and> split_loop exact_ops 5 (1/5) (1/5) (init_state exact_ops) [doc_eth, doc_xmr] = Inr a
      \<and> split_step exact_ops 5 (1/5) (1/5) a doc_doge = Inr b
      \<and> assigned_to Train doc_doge a b
      \<and> \<not> fless exact_ops (cur_dev_ratio a) (1/5)
      \<and> \<not> fless exact_ops (cur_test_ratio a) (1/5)
      \<and> dev_docs s_end = dev_docs a
      \<and> test_docs s_end = test_docs a)"
proof -
  let ?run = "split_loop exact_ops 5 (1/5) (1/5) (init_state exact_ops)"
  have "(5::int) \<noteq> 0" by simp
  from split_loop_total [OF this, of exact_ops "1/5" "1/5" "init_state exact_ops"
      "shuffled_docs lcg_random (heap_of ex_docs) 0"]
  obtain s_end where run: "?run (shuffled_docs lcg_random (heap_of ex_docs) 0) = Inr s_end"
    by blast
  from priority_order [OF shuffled_ex_docs run]
  obtain a b where a: "?run [doc_eth, doc_xmr] = Inr a"
    and b: "split_step exact_ops 5 (1/5) (1/5) a doc_doge = Inr b"
    and tr: "assigned_to Train doc_doge a b \<longrightarrow>
           \<not> fless exact_ops (cur_dev_ratio a) (1/5) \<and> \<not> fless exact_ops (cur_test_ratio a) (1/5)"
    and dv: "\<not> fless exact_ops (cur_dev_ratio a) (1/5) \<longrightarrow>
           \<not> assigned_to Dev doc_doge a b \<and> dev_docs s_end = dev_docs a"
    and te: "\<not> fless exact_ops (cur_test_ratio a) (1/5) \<longrightarrow>
           \<not> assigned_to Test doc_doge a b \<and> test_docs s_end = test_docs a"
    by blast
  from a have ratios: "cur_dev_ratio a = 2/5 \<and> cur_test_ratio a = 1/5"
    by (auto simp: split_step_def py_truediv_def exact_ops_def init_state_def doc_eth_def
          doc_xmr_def)
  then have "greedy_choice exact_ops (1/5) (1/5) a = Train"
    by (simp add: greedy_choice_def exact_ops_def)
  with split_step_assigned [OF b] have train: "assigned_to Train doc_doge a b" by simp
  from run a b train tr dv te shuffled_ex_docs show ?thesis by blast
qed

subsection \<open>A total of zero entities\<close>

text \<open>
  C9. For a non-empty list of documents and \<open>tot_ents = 0\<close> the function raises
  \<open>ZeroDivisionError\<close>: whichever branch the first document takes, the update of the
  ratio divides by \<open>tot_ents\<close>. None of the handlers of \<open>main\<close> catches this exception:
  when \<open>create_spacy_docs\<close> returns such documents and such a total, the exception
  leaves \<open>main\<close>. The hypothesis on \<open>random.shuffle\<close> is that it returns the references
  it was given, in some order.
\<close>

theorem zero_total_raises:
  "(list_at h docs \<noteq> [] \<and>
    mset (fst (seeded_shuffle R (list_at h docs))) = mset (list_at h docs) \<longrightarrow>
    snd (train_test_dev_split R IO ops g w h docs 0 out_dir test_size dev_size)
      = Inl ZeroDivisionError)
   \<and> (unzip zip_file = Inr tasks \<and> create_spacy_docs L tasks = Inr c \<and>
      out_docs c \<noteq> [] \<and> out_tot_ents c = 0 \<and>
      mset (fst (seeded_shuffle R [0..<length (out_docs c)])) = mset [0..<length (out_docs c)] \<longrightarrow>
      fst (main unzip L R IO ops g w zip_file out_dir test_size dev_size)
        = Propagated ZeroDivisionError)"
proof -
  have raise: "snd (train_test_dev_split R IO ops g w h docs 0 out_dir test_size dev_size)
      = Inl ZeroDivisionError"
    if "list_at h docs \<noteq> []"
      and "mset (fst (seeded_shuffle R (list_at h docs))) = mset (list_at h docs)"
    for h :: heap and docs w
  proof -
    from shuffled_nonempty [OF that]
    have "split_loop ops 0 test_size dev_size (init_state ops) (shuffled_docs R h docs)
          = Inl ZeroDivisionError"
      by (rule split_loop_zero)
    then show ?thesis by (simp add: split_outcome)
  qed
  have propagate: "fst (main unzip L R IO ops g w zip_file out_dir test_size dev_size)
      = Propagated ZeroDivisionError"
    if u: "unzip zip_file = Inr tasks" and c: "create_spacy_docs L tasks = Inr c"
      and ne: "out_docs c \<noteq> []" and z: "out_tot_ents c = 0"
      and perm: "mset (fst (seeded_shuffle R [0..<length (out_docs c)]))
            = mset [0..<length (out_docs c)]"
  proof -
    from ne have l: "list_at (heap_of (out_docs c)) 0 \<noteq> []" by (simp add: heap_of_def)
    from perm have p: "mset (fst (seeded_shuffle R (list_at (heap_of (out_docs c)) 0)))
        = mset (list_at (heap_of (out_docs c)) 0)" by (simp add: heap_of_def)
    from raise [OF l p, of w]
    have r: "snd (train_test_dev_split R IO ops g w (heap_of (out_docs c)) 0 0 out_dir
        test_size dev_size) = Inl ZeroDivisionError" .
    obtain g' w' h' where st: "fst (train_test_dev_split R IO ops g w (heap_of (out_docs c)) 0 0
        out_dir test_size dev_size) = (g', w', h')"
      by (metis prod_cases3)
    from r st have "train_test_dev_split R IO ops g w (heap_of (out_docs c)) 0 0 out_dir
        test_size dev_size = ((g', w', h'), Inl ZeroDivisionError)"
      by (metis prod.collapse)
    with u c z show ?thesis by (simp add: main_def handlers_def)
  qed
  from raise propagate show ?thesis by blast
qed

theorem zero_total_raises_witness:
  "list_at (heap_of [doc_hodl]) 0 \<noteq> []
   \<and> mset (fst (seeded_shuffle lcg_random (list_at (heap_of [doc_hodl]) 0)))
       = mset (list_at (heap_of [doc_hodl]) 0)
   \<and> create_spacy_docs ws_lib [task_hodl] =
       Inr \<lparr>out_docs = [doc_hodl], out_tot_ents = 0, out_misaligned = 0\<rparr>
   \<and> snd (train_test_dev_split lcg_random log_io exact_ops (7::nat) [] (heap_of [doc_hodl]) 0
          0 ''corpus'' (1/5) (1/5)) = Inl ZeroDivisionError
   \<and> fst (main (\<lambda>zip_file. Inr [task_hodl]) ws_lib lcg_random log_io exact_ops (7::nat)
          ([] :: rat io_event list) ''annotations.zip'' ''corpus'' (1/5) (1/5))
       = Propagated ZeroDivisionError"
proof -
  have l: "list_at (heap_of [doc_hodl]) 0 = [0]" by (simp add: heap_of_def)
  have sh: "fst (seeded_shuffle lcg_random [0]) = [0]"
    by (simp add: seeded_shuffle_def lcg_random_def)
  have conv: "create_spacy_docs ws_lib [task_hodl] =
       Inr \<lparr>out_docs = [doc_hodl], out_tot_ents = 0, out_misaligned = 0\<rparr>"
    by code_simp
  have perm: "mset (fst (seeded_shuffle lcg_random [0..<length [doc_hodl]]))
      = mset [0..<length [doc_hodl]]"
    by (simp add: sh)
  from zero_total_raises [of "heap_of [doc_hodl]" 0 lcg_random log_io exact_ops 7 "[]"
      "''corpus''" "1/5" "1/5" "\<lambda>zip_file. Inr [task_hodl]" "''annotations.zip''"
      "[task_hodl]" ws_lib "\<lparr>out_docs = [doc_hodl], out_tot_ents = 0, out_misaligned = 0\<rparr>"]
    l sh conv perm
  show ?thesis by simp
qed

subsection \<open>The caller's list\<close>



section \<open>Properties of the conversion\<close>

lemma convert_task_conserves:
  assumes "convert_task L raw_text annotated acc = Inr c"
  shows "out_tot_ents c - (\<Sum>d\<leftarrow>out_docs c. int (length (doc_ents d))) - out_misaligned c =
         out_tot_ents acc - (\<Sum>d\<leftarrow>out_docs acc. int (length (doc_ents d))) - out_misaligned acc"
  using assms by (auto simp: convert_task_def split: sum.splits)

lemma create_loop_conserves:
  "create_loop L tasks acc = Inr c \<Longrightarrow>
   out_tot_ents c - (\<Sum>d\<leftarrow>out_docs c. int (length (doc_ents d))) - out_misaligned c =
   out_tot_ents acc - (\<Sum>d\<leftarrow>out_docs acc. int (length (doc_ents d))) - out_misaligned acc"
proof (induction tasks arbitrary: acc)
  case Nil
  then show ?case by simp
next
  case (Cons t tasks)
  show ?case
  proof (cases "length (completions t) = 1 \<and> was_cancelled (completions t ! 0) = None")
    case False
    with Cons.prems have "create_loop L tasks acc = Inr c"
      by (auto simp: Let_def split: if_splits)
    then show ?thesis by (rule Cons.IH)
  next
    case True
    with Cons.prems obtain annotated acc' where
      "convert_task L (reddit t) annotated acc = Inr acc'" and "create_loop L tasks acc' = Inr c"
      by (auto simp: Let_def split: sum.splits)
    with Cons.IH [of acc'] convert_task_conserves [of L "reddit t" annotated acc acc']
    show ?thesis by simp
  qed
qed

lemma single_nth_hd: "length xs = 1 \<Longrightarrow> xs ! 0 = hd xs"
  by (cases xs) simp_all

lemma extract_entities_normalize:
  "\<forall>v\<in>set results. v_labels v \<noteq> [] \<Longrightarrow>
   extract_entities results acc = Inr (acc @ map normalize results)"
proof (induction results arbitrary: acc)
  case Nil
  then show ?case by simp
next
  case (Cons v results)
  then obtain l ls where "v_labels v = l # ls" by (cases "v_labels v") auto
  with Cons show ?case by (simp add: normalize_def)
qed

lemma create_loop_filter:
  "\<forall>t\<in>set tasks. admitted t \<longrightarrow> (\<forall>v\<in>set (result (hd (completions t))). v_labels v \<noteq> []) \<Longrightarrow>
   create_loop L tasks acc = convert_all L (task_filter tasks) acc"
proof (induction tasks arbitrary: acc)
  case Nil
  show ?case by (simp add: task_filter_def)
next
  case (Cons t tasks)
  then have IH: "create_loop L tasks a = convert_all L (task_filter tasks) a" for a
    by simp
  show ?case
  proof (cases "admitted t")
    case False
    then have "create_loop L (t # tasks) acc = create_loop L tasks acc"
      by (auto simp: admitted_def Let_def single_nth_hd)
    with False IH show ?thesis by (simp add: task_filter_def)
  next
    case True
    then have one: "length (completions t) = 1"
      and hd0: "completions t ! 0 = hd (completions t)"
      and live: "was_cancelled (hd (completions t)) = None"
      by (auto simp: admitted_def single_nth_hd)
    from True Cons.prems
    have "\<forall>v\<in>set (result (hd (completions t))). v_labels v \<noteq> []" by simp
    from extract_entities_normalize [OF this, of "[]"]
    have ex: "extract_entities (result (hd (completions t))) [] =
              Inr (map normalize (result (hd (completions t))))" by simp
    from True have tf: "task_filter (t # tasks) =
        (reddit t, map normalize (result (hd (completions t)))) # task_filter tasks"
      by (simp add: task_filter_def)
    show ?thesis
      by (simp add: one hd0 live ex tf IH split: sum.splits)
  qed
qed

text \<open>
  Between the filter and the accumulators the function only calls spaCy, with no
  handler around the calls: what those calls raise, the function raises, and when the
  four calls return (and every result of a kept task has a label), the function
  returns.
\<close>

lemma convert_task_returns:
  assumes "\<And>raw_text. \<exists>d. nlp L raw_text = Inr d"
    and "\<And>d annotated. \<exists>tags. offsets_to_biluo_tags L d annotated = Inr tags"
    and "\<And>d tags. \<exists>entities. biluo_tags_to_spans L d tags = Inr entities"
    and "\<And>d entities. \<exists>d'. set_ents L d entities = Inr d'"
  shows "\<exists>acc'. convert_task L raw_text annotated acc = Inr acc'"
proof -
  from assms(1) obtain d where d: "nlp L raw_text = Inr d" by blast
  from assms(2) obtain tags where t: "offsets_to_biluo_tags L d annotated = Inr tags" by blast
  from assms(3) obtain entities where e: "biluo_tags_to_spans L d tags = Inr entities" by blast
  from assms(4) obtain d' where "set_ents L d entities = Inr d'" by blast
  with d t e show ?thesis by (simp add: convert_task_def)
qed

lemma convert_all_returns:
  assumes "\<And>raw_text. \<exists>d. nlp L raw_text = Inr d"
    and "\<And>d annotated. \<exists>tags. offsets_to_biluo_tags L d annotated = Inr tags"
    and "\<And>d tags. \<exists>entities. biluo_tags_to_spans L d tags = Inr entities"
    and "\<And>d entities. \<exists>d'. set_ents L d entities = Inr d'"
  shows "\<exists>c. convert_all L pairs acc = Inr c"
proof (induction pairs arbitrary: acc)
  case Nil
  show ?case by simp
next
  case (Cons p pairs)
  obtain raw_text annotated where p: "p = (raw_text, annotated)" by (cases p)
  from convert_task_returns [OF assms, of raw_text annotated acc]
  obtain acc' where "convert_task L raw_text annotated acc = Inr acc'" by blast
  with Cons [of acc'] p show ?case by simp
qed

lemma create_spacy_docs_returns:
  assumes "\<And>raw_text. \<exists>d. nlp L raw_text = Inr d"
    and "\<And>d annotated. \<exists>tags. offsets_to_biluo_tags L d annotated = Inr tags"
    and "\<And>d tags. \<exists>entities. biluo_tags_to_spans L d tags = Inr entities"
    and "\<And>d entities. \<exists>d'. set_ents L d entities = Inr d'"
    and "\<forall>t\<in>set completed_tasks. admitted t \<longrightarrow>
           (\<forall>v\<in>set (result (hd (completions t))). v_labels v \<noteq> [])"
  shows "\<exists>c. create_spacy_docs L completed_tasks = Inr c"
  unfolding create_spacy_docs_def create_loop_filter [OF assms(5)]
  by (rule convert_all_returns [OF assms(1-4)])

subsection \<open>Entity conservation\<close>

text \<open>
  C3. Entity conservation: in what \<open>create_spacy_docs\<close> returns, the total number of
  annotations seen (\<open>tot_ents\<close>) is the number of entities resolved into the documents
  (the sum of the lengths of their \<open>doc.ents\<close>) plus the count \<open>misaligned\<close>. This
  holds for every list of tasks and whatever spaCy computes.
\<close>

theorem entity_conservation:
  assumes "create_spacy_docs L completed_tasks = Inr c"
  shows "out_tot_ents c = (\<Sum>d\<leftarrow>out_docs c. int (length (doc_ents d))) + out_misaligned c"
  using create_loop_conserves [OF assms [unfolded create_spacy_docs_def]] by simp

theorem entity_conservation_witness:
  "create_spacy_docs ws_lib ex_tasks =
     Inr \<lparr>out_docs = [\<lparr>doc_text = ''BTC is up'', doc_ents = [(0, 1, ''COIN'')]\<rparr>],
          out_tot_ents = 2, out_misaligned = 1\<rparr>
   \<and> (2::int) = (\<Sum>d\<leftarrow>[\<lparr>doc_text = ''BTC is up'', doc_ents = [(0, 1, ''COIN'')]\<rparr>].
                   int (length (doc_ents d))) + 1"
proof -
  have run: "create_spacy_docs ws_lib ex_tasks =
     Inr \<lparr>out_docs = [\<lparr>doc_text = ''BTC is up'', doc_ents = [(0, 1, ''COIN'')]\<rparr>],
          out_tot_ents = 2, out_misaligned = 1\<rparr>"
    by code_simp
  from entity_conservation [OF run] run show ?thesis by simp
qed

subsection \<open>The task filter\<close>




end
